theory Spec2Isabelle
  imports Complex_Main
begin

section \<open>Ticker normalization (\<^verbatim>\<open>normalize_canadian_ticker\<close>)\<close>

text \<open>
  Ticker strings are lists of characters. The characters are taken to be ASCII: the
  white space removed by \<^verbatim>\<open>str.strip()\<close> is the ASCII white space of Python
  (codes 9 to 13, 28 to 32), and \<^verbatim>\<open>str.upper()\<close> maps the letters a to z to A to Z and
  leaves every other character alone.
\<close>

definition isspace :: "char \<Rightarrow> bool" where
  "isspace c = (let n = (of_char c :: nat) in (9 \<le> n \<and> n \<le> 13) \<or> (28 \<le> n \<and> n \<le> 32))"

definition upper_char :: "char \<Rightarrow> char" where
  "upper_char c =
     (let n = (of_char c :: nat) in if 97 \<le> n \<and> n \<le> 122 then char_of (n - 32) else c)"

definition strip :: "string \<Rightarrow> string" where
  "strip s = rev (dropWhile isspace (rev (dropWhile isspace s)))"

definition upper :: "string \<Rightarrow> string" where
  "upper s = map upper_char s"

definition startswith :: "string \<Rightarrow> string \<Rightarrow> bool" where
  "startswith t p = (take (length p) t = p)"

definition normalize_canadian_ticker :: "string \<Rightarrow> string" where
  "normalize_canadian_ticker ticker =
     (let t = upper (strip ticker) in
      if startswith t ''^'' then t
      else if CHR ''.'' \<notin> set t then t @ ''.TO''
      else t)"

section \<open>Floating-point values\<close>

text \<open>
  A float of numpy and pandas is a finite number, one of the two infinities, or NaN (the
  "undefined" marker of the program). Finite values are exact reals: rounding, overflow
  to infinity and the sign of zero are not part of the model. The special values combine
  as IEEE 754 arithmetic combines them, which is what decides which rows
  \<^verbatim>\<open>dropna\<close> removes and which results \<^verbatim>\<open>np.isfinite\<close> rejects.
\<close>

datatype fl = Fin real | PInf | NInf | NaN

fun isnan :: "fl \<Rightarrow> bool" where
  "isnan NaN = True"
| "isnan _ = False"

fun isfinite :: "fl \<Rightarrow> bool" where
  "isfinite (Fin _) = True"
| "isfinite _ = False"

fun fneg :: "fl \<Rightarrow> fl" where
  "fneg (Fin a) = Fin (- a)"
| "fneg PInf = NInf"
| "fneg NInf = PInf"
| "fneg NaN = NaN"

fun fadd :: "fl \<Rightarrow> fl \<Rightarrow> fl" where
  "fadd NaN _ = NaN"
| "fadd _ NaN = NaN"
| "fadd (Fin a) (Fin b) = Fin (a + b)"
| "fadd PInf NInf = NaN"
| "fadd NInf PInf = NaN"
| "fadd PInf _ = PInf"
| "fadd _ PInf = PInf"
| "fadd NInf _ = NInf"
| "fadd _ NInf = NInf"

definition fsub :: "fl \<Rightarrow> fl \<Rightarrow> fl" where
  "fsub a b = fadd a (fneg b)"

fun fmul :: "fl \<Rightarrow> fl \<Rightarrow> fl" where
  "fmul NaN _ = NaN"
| "fmul _ NaN = NaN"
| "fmul (Fin a) (Fin b) = Fin (a * b)"
| "fmul PInf (Fin b) = (if b = 0 then NaN else if 0 < b then PInf else NInf)"
| "fmul NInf (Fin b) = (if b = 0 then NaN else if 0 < b then NInf else PInf)"
| "fmul (Fin a) PInf = (if a = 0 then NaN else if 0 < a then PInf else NInf)"
| "fmul (Fin a) NInf = (if a = 0 then NaN else if 0 < a then NInf else PInf)"
| "fmul PInf PInf = PInf"
| "fmul NInf NInf = PInf"
| "fmul PInf NInf = NInf"
| "fmul NInf PInf = NInf"

fun fdiv :: "fl \<Rightarrow> fl \<Rightarrow> fl" where
  "fdiv NaN _ = NaN"
| "fdiv _ NaN = NaN"
| "fdiv (Fin a) (Fin b) =
     (if b \<noteq> 0 then Fin (a / b)
      else if a = 0 then NaN else if 0 < a then PInf else NInf)"
| "fdiv (Fin a) PInf = Fin 0"
| "fdiv (Fin a) NInf = Fin 0"
| "fdiv PInf (Fin b) = (if 0 \<le> b then PInf else NInf)"
| "fdiv NInf (Fin b) = (if 0 \<le> b then NInf else PInf)"
| "fdiv PInf PInf = NaN"
| "fdiv PInf NInf = NaN"
| "fdiv NInf PInf = NaN"
| "fdiv NInf NInf = NaN"

fun fsqrt :: "fl \<Rightarrow> fl" where
  "fsqrt (Fin a) = (if 0 \<le> a then Fin (sqrt a) else NaN)"
| "fsqrt PInf = PInf"
| "fsqrt NInf = NaN"
| "fsqrt NaN = NaN"

text \<open>
  \<^verbatim>\<open>b ** e\<close> for a finite numpy float \<open>b\<close> and a finite exponent \<open>e > 0\<close>: a negative
  base has a power only for an integral exponent.
\<close>

definition fpow :: "real \<Rightarrow> real \<Rightarrow> fl" where
  "fpow b e =
     (if 0 \<le> b then Fin (b powr e)
      else if real_of_int \<lfloor>e\<rfloor> = e then Fin (b ^ nat \<lfloor>e\<rfloor>)
      else NaN)"

text \<open>Comparison of floats: false as soon as one side is NaN.\<close>

fun fle :: "fl \<Rightarrow> fl \<Rightarrow> bool" where
  "fle NaN _ = False"
| "fle _ NaN = False"
| "fle NInf _ = True"
| "fle _ PInf = True"
| "fle (Fin a) (Fin b) = (a \<le> b)"
| "fle PInf _ = False"
| "fle _ NInf = False"

definition fmaximum :: "fl \<Rightarrow> fl \<Rightarrow> fl" where
  "fmaximum a b = (if isnan a \<or> isnan b then NaN else if fle a b then b else a)"

definition fminimum :: "fl \<Rightarrow> fl \<Rightarrow> fl" where
  "fminimum a b = (if isnan a \<or> isnan b then NaN else if fle a b then a else b)"

definition finite_or_nan :: "fl \<Rightarrow> fl" where
  "finite_or_nan x = (if isfinite x then x else NaN)"

section \<open>Series operations of pandas\<close>

text \<open>
  A Series is the list of its values in positional order. \<^verbatim>\<open>dropna\<close> keeps the
  values that are not NaN (an infinity is kept).
\<close>

definition dropna :: "fl list \<Rightarrow> fl list" where
  "dropna xs = filter (\<lambda>x. \<not> isnan x) xs"

definition fsum :: "fl list \<Rightarrow> fl" where
  "fsum xs = foldl fadd (Fin 0) xs"

text \<open>
  \<^verbatim>\<open>pct_change\<close>: the value divided by the previous one, minus 1; the first entry has
  no predecessor and is NaN.
\<close>

fun pct_from :: "fl \<Rightarrow> fl list \<Rightarrow> fl list" where
  "pct_from p [] = []"
| "pct_from p (c # cs) = fsub (fdiv c p) (Fin 1) # pct_from c cs"

fun pct_change :: "fl list \<Rightarrow> fl list" where
  "pct_change [] = []"
| "pct_change (c # cs) = NaN # pct_from c cs"

text \<open>
  Cumulative operations (\<^verbatim>\<open>cumprod\<close>, \<^verbatim>\<open>cummax\<close>) as pandas runs them with
  \<^verbatim>\<open>skipna=True\<close>: a NaN of the input is replaced by the neutral value of the operation,
  numpy accumulates from left to right, and the NaN is put back at its position.
\<close>

fun accum_from :: "('a \<Rightarrow> 'a \<Rightarrow> 'a) \<Rightarrow> 'a \<Rightarrow> 'a list \<Rightarrow> 'a list" where
  "accum_from f a [] = []"
| "accum_from f a (x # xs) = f a x # accum_from f (f a x) xs"

fun accumulate :: "('a \<Rightarrow> 'a \<Rightarrow> 'a) \<Rightarrow> 'a list \<Rightarrow> 'a list" where
  "accumulate f [] = []"
| "accumulate f (x # xs) = x # accum_from f x xs"

definition na_accum_func :: "(fl \<Rightarrow> fl \<Rightarrow> fl) \<Rightarrow> fl \<Rightarrow> fl list \<Rightarrow> fl list" where
  "na_accum_func f neutral xs =
     map2 (\<lambda>x r. if isnan x then NaN else r) xs
       (accumulate f (map (\<lambda>x. if isnan x then neutral else x) xs))"

definition cumprod :: "fl list \<Rightarrow> fl list" where
  "cumprod xs = na_accum_func fmul (Fin 1) xs"

definition cummax :: "fl list \<Rightarrow> fl list" where
  "cummax xs = na_accum_func fmaximum NInf xs"

text \<open>\<^verbatim>\<open>Series.min()\<close> skips NaN and is NaN when nothing is left.\<close>

definition series_min :: "fl list \<Rightarrow> fl" where
  "series_min xs = (case dropna xs of [] \<Rightarrow> NaN | v # vs \<Rightarrow> foldl fminimum v vs)"

text \<open>
  \<^verbatim>\<open>Series.std()\<close>: the sample standard deviation (one degree of freedom removed) of
  the values that are not NaN, in two passes.
\<close>

definition series_std :: "fl list \<Rightarrow> fl" where
  "series_std xs =
     (let vs = dropna xs; n = length vs in
      if n \<le> 1 then NaN
      else
        let avg = fdiv (fsum vs) (Fin (real n));
            sqr = map (\<lambda>v. fmul (fsub avg v) (fsub avg v)) vs
        in fsqrt (fdiv (fsum sqr) (Fin (real (n - 1)))))"

text \<open>
  \<^verbatim>\<open>rolling(w)\<close>: entry \<open>i\<close> looks at the \<open>w\<close> values ending at \<open>i\<close> (fewer at the
  start) and is NaN unless \<open>w\<close> of them are not NaN (\<^verbatim>\<open>min_periods\<close> is the window
  size). The statistic of a window is computed on the window itself.
\<close>

definition window :: "nat \<Rightarrow> 'a list \<Rightarrow> nat \<Rightarrow> 'a list" where
  "window w xs i = drop (Suc i - w) (take (Suc i) xs)"

definition rolling :: "nat \<Rightarrow> (fl list \<Rightarrow> fl) \<Rightarrow> fl list \<Rightarrow> fl list" where
  "rolling w stat xs =
     map (\<lambda>i. let vs = dropna (window w xs i) in if length vs < w then NaN else stat vs)
       [0..<length xs]"

definition series_mean :: "fl list \<Rightarrow> fl" where
  "series_mean vs = fdiv (fsum vs) (Fin (real (length vs)))"

definition rolling_mean :: "nat \<Rightarrow> fl list \<Rightarrow> fl list" where
  "rolling_mean w xs = rolling w series_mean xs"

definition rolling_std :: "nat \<Rightarrow> fl list \<Rightarrow> fl list" where
  "rolling_std w xs = rolling w series_std xs"

section \<open>Warnings and errors\<close>

text \<open>
  \<^verbatim>\<open>warnings.warn(msg, RuntimeWarning)\<close> records a warning: every function returns the
  warnings it issued, in order. Only the warnings of the program's own calls are recorded.
  A raised exception is the left summand of the result.
\<close>

datatype warning = RuntimeWarning string

datatype error = ValueError string | KeyError "string list"

section \<open>Maximum drawdown (\<^verbatim>\<open>max_drawdown\<close>)\<close>

text \<open>
  The argument is a Series of any cells; \<open>to_numeric\<close> stands for
  \<^verbatim>\<open>pd.to_numeric(..., errors="coerce")\<close>, which gives one float per cell, NaN for a cell
  that is not a number.
\<close>

definition max_drawdown :: "('c list \<Rightarrow> fl list) \<Rightarrow> 'c list \<Rightarrow> fl \<times> warning list" where
  "max_drawdown to_numeric series =
     (let s = dropna (to_numeric series) in
      if s = [] then
        (NaN, [RuntimeWarning ''Max drawdown could not be computed (empty return series).''])
      else
        let cumulative = cumprod (map (fadd (Fin 1)) s);
            peak = cummax cumulative;
            dd = map (\<lambda>x. fsub x (Fin 1)) (map2 fdiv cumulative peak);
            out = series_min dd
        in if \<not> isfinite out then
             (NaN, [RuntimeWarning ''Max drawdown computed to a non-finite value.''])
           else (out, []))"

text \<open>
  The drawdown as the specification words it, entry by entry: the cumulative wealth index
  at \<open>i\<close> is the product of \<open>1 + r\<close> over the returns up to \<open>i\<close>; the running maximum at
  \<open>i\<close> is the largest index up to \<open>i\<close> (an undefined index does not count, and where the
  index itself is undefined so is the maximum); the result is the least value of
  \<open>index / running maximum - 1\<close> over the entries where it is defined, and undefined when
  that is not a finite number.
\<close>

definition wealth_index :: "fl list \<Rightarrow> nat \<Rightarrow> fl" where
  "wealth_index s i = foldl fmul (Fin 1) (map (fadd (Fin 1)) (take (Suc i) s))"

definition running_max :: "fl list \<Rightarrow> nat \<Rightarrow> fl" where
  "running_max s i =
     (if isnan (wealth_index s i) then NaN
      else foldl fmaximum NInf (dropna (map (wealth_index s) [0..<Suc i])))"

definition drawdown_at :: "fl list \<Rightarrow> nat \<Rightarrow> fl" where
  "drawdown_at s i = fsub (fdiv (wealth_index s i) (running_max s i)) (Fin 1)"

definition worst_drawdown :: "fl list \<Rightarrow> fl" where
  "worst_drawdown s = finite_or_nan (series_min (map (drawdown_at s) [0..<length s]))"

section \<open>Tables and timestamps\<close>

text \<open>
  A DataFrame has column labels (distinct strings) and rows; a row gives the cell under
  each label. The cells are of any type \<open>'c\<close>: what they mean is decided by the two
  coercions of pandas, which the functions below take as parameters:
  \<open>to_datetime\<close> for \<^verbatim>\<open>pd.to_datetime(..., errors="coerce")\<close>, one timestamp per cell
  or \<open>None\<close> (NaT) for a cell that is not a date, and \<open>to_numeric\<close> for
  \<^verbatim>\<open>pd.to_numeric(..., errors="coerce")\<close>.
\<close>

record 'c dataframe =
  columns :: "string list"
  rows :: "(string \<Rightarrow> 'c) list"

definition column :: "'c dataframe \<Rightarrow> string \<Rightarrow> 'c list" where
  "column df name = map (\<lambda>r. r name) (rows df)"

text \<open>
  A timestamp is an instant in nanoseconds and the offset of its time zone. The calendar
  date is that of the local time, counted in days; \<^verbatim>\<open>isoformat()\<close> writes that day.
  The \<^verbatim>\<open>.days\<close> of a difference of two timestamps is rounded down.
\<close>

record timestamp =
  instant :: int
  utcoffset :: int

definition day_ns :: int where
  "day_ns = 86400000000000"

definition date_of :: "timestamp \<Rightarrow> int" where
  "date_of t = (instant t + utcoffset t) div day_ns"

definition days_between :: "timestamp \<Rightarrow> timestamp \<Rightarrow> int" where
  "days_between t0 t1 = (instant t1 - instant t0) div day_ns"

datatype date_text = NA | Iso int

section \<open>Summary metrics (\<^verbatim>\<open>compute_metrics\<close>)\<close>

record metrics =
  Start :: date_text
  End :: date_text
  Total_Return :: fl
  CAGR :: fl
  Annualized_Volatility :: fl
  Max_Drawdown :: fl

text \<open>The \<^verbatim>\<open>repr\<close> of a list of strings, as the error message prints it.\<close>

fun join_strings :: "string \<Rightarrow> string list \<Rightarrow> string" where
  "join_strings sep [] = []"
| "join_strings sep [x] = x"
| "join_strings sep (x # y # ys) = x @ sep @ join_strings sep (y # ys)"

definition repr_list :: "string list \<Rightarrow> string" where
  "repr_list xs = ''['' @ join_strings '', '' (map (\<lambda>x. [CHR 0x27] @ x @ [CHR 0x27]) xs) @ '']''"

text \<open>\<^verbatim>\<open>sorted(required - set(df.columns))\<close>: the required labels in sorted order.\<close>

definition missing_columns :: "'c dataframe \<Rightarrow> string list" where
  "missing_columns df = filter (\<lambda>c. c \<notin> set (columns df)) [''Close'', ''Date'', ''Volume'']"

text \<open>
  The rows of \<open>d\<close> after the coercions and \<^verbatim>\<open>dropna(subset=["Date", "Close"])\<close>: date
  and close of the rows that have both.
\<close>

definition valid_rows :: "timestamp option list \<Rightarrow> fl list \<Rightarrow> (timestamp \<times> fl) list" where
  "valid_rows dates closes =
     concat (map (\<lambda>(t, c). case t of None \<Rightarrow> [] | Some ts \<Rightarrow> if isnan c then [] else [(ts, c)])
       (zip dates closes))"

text \<open>
  The rows after \<^verbatim>\<open>d["Return"] = d["Close"].pct_change()\<close> and
  \<^verbatim>\<open>dropna(subset=["Return"])\<close>: date, close and return of the rows whose return is
  not NaN.
\<close>

definition returned_rows :: "(timestamp \<times> fl) list \<Rightarrow> (timestamp \<times> fl \<times> fl) list" where
  "returned_rows v =
     filter (\<lambda>(t, c, r). \<not> isnan r) (zip (map fst v) (zip (map snd v) (pct_change (map snd v))))"

definition row_date :: "timestamp \<times> fl \<times> fl \<Rightarrow> timestamp" where
  "row_date r = fst r"

definition row_close :: "timestamp \<times> fl \<times> fl \<Rightarrow> fl" where
  "row_close r = fst (snd r)"

definition row_return :: "timestamp \<times> fl \<times> fl \<Rightarrow> fl" where
  "row_return r = snd (snd r)"

text \<open>
  The three metrics below are computed inside \<^verbatim>\<open>try\<close> blocks. Float arithmetic raises
  nothing (a division by zero gives an infinity or NaN), so the handlers have no branch
  here; what they guard against is reported through \<^verbatim>\<open>np.isfinite\<close>. The returns
  passed to \<open>max_drawdown\<close> are a float column, which its coercion leaves as it is.
\<close>

definition total_return_of :: "(timestamp \<times> fl \<times> fl) list \<Rightarrow> fl \<times> warning list" where
  "total_return_of d =
     (let total_return = fsub (fdiv (row_close (last d)) (row_close (hd d))) (Fin 1) in
      if \<not> isfinite total_return then
        (NaN, [RuntimeWarning ''Total Return computed to a non-finite value.''])
      else (total_return, []))"

definition cagr_of :: "(timestamp \<times> fl \<times> fl) list \<Rightarrow> fl \<Rightarrow> fl \<times> warning list" where
  "cagr_of d total_return =
     (let days = days_between (row_date (hd d)) (row_date (last d));
          years = real_of_int days / 365.25
      in
        if years \<le> 0 then
          (NaN, [RuntimeWarning ''CAGR could not be computed (non-positive time span).''])
        else
          (case total_return of
             Fin r \<Rightarrow>
               (let cagr = fsub (fpow (1 + r) (1 / years)) (Fin 1) in
                if \<not> isfinite cagr then
                  (NaN, [RuntimeWarning ''CAGR computed to a non-finite value.''])
                else (cagr, []))
           | _ \<Rightarrow>
               (NaN, [RuntimeWarning ''CAGR skipped because Total Return is not finite.''])))"

definition volatility_of :: "(timestamp \<times> fl \<times> fl) list \<Rightarrow> fl \<times> warning list" where
  "volatility_of d =
     (let vol = fmul (series_std (map row_return d)) (Fin (sqrt 252)) in
      if \<not> isfinite vol then
        (NaN, [RuntimeWarning ''Annualized Volatility computed to a non-finite value.''])
      else (vol, []))"

definition compute_metrics ::
  "('c list \<Rightarrow> timestamp option list) \<Rightarrow> ('c list \<Rightarrow> fl list) \<Rightarrow> 'c dataframe
     \<Rightarrow> error + (metrics \<times> warning list)" where
  "compute_metrics to_datetime to_numeric df =
     (if missing_columns df \<noteq> [] then
        Inl (ValueError (''compute_metrics missing required columns: '' @ repr_list (missing_columns df)))
      else
        let d = returned_rows
                  (valid_rows (to_datetime (column df ''Date'')) (to_numeric (column df ''Close'')))
        in
          if length d < 2 then
            Inr (\<lparr>Start = (if 1 \<le> length d then Iso (date_of (row_date (hd d))) else NA),
                  End = (if 1 \<le> length d then Iso (date_of (row_date (last d))) else NA),
                  Total_Return = NaN, CAGR = NaN, Annualized_Volatility = NaN, Max_Drawdown = NaN\<rparr>,
                 [RuntimeWarning
                    ''Not enough data points to compute return-based metrics (need at least 2).''])
          else
            let (total_return, w1) = total_return_of d;
                (cagr, w2) = cagr_of d total_return;
                (vol, w3) = volatility_of d;
                (mdd, w4) = max_drawdown (\<lambda>s. s) (map row_return d)
            in Inr (\<lparr>Start = Iso (date_of (row_date (hd d))),
                     End = Iso (date_of (row_date (last d))),
                     Total_Return = finite_or_nan total_return,
                     CAGR = finite_or_nan cagr,
                     Annualized_Volatility = finite_or_nan vol,
                     Max_Drawdown = finite_or_nan mdd\<rparr>,
                    w1 @ w2 @ w3 @ w4))"

section \<open>The dashboard (\<^verbatim>\<open>build_dashboard_html\<close>)\<close>

text \<open>
  The market-data provider \<^verbatim>\<open>yf.Ticker(t).history(period=period)\<close> is a parameter:
  it answers \<open>None\<close> or a table indexed by date. \<open>index_name\<close> is the label that
  \<^verbatim>\<open>reset_index()\<close> gives the index when it turns it into a column; the rows give the
  index cell under that label.
\<close>

record 'c history =
  index_name :: string
  hist_columns :: "string list"
  hist_rows :: "(string \<Rightarrow> 'c) list"

text \<open>\<^verbatim>\<open>DataFrame.empty\<close>: no row or no column.\<close>

definition hist_empty :: "'c history \<Rightarrow> bool" where
  "hist_empty h = (hist_rows h = [] \<or> hist_columns h = [])"

definition reset_index :: "'c history \<Rightarrow> error + 'c dataframe" where
  "reset_index h =
     (if index_name h \<in> set (hist_columns h) then
        Inl (ValueError (''cannot insert '' @ index_name h @ '', already exists''))
      else Inr \<lparr>columns = index_name h # hist_columns h, rows = hist_rows h\<rparr>)"

text \<open>\<^verbatim>\<open>df[["Date", "Close", "Volume"]]\<close> raises a KeyError that lists the absent labels.\<close>

definition select_columns :: "string list \<Rightarrow> 'c dataframe \<Rightarrow> error + 'c dataframe" where
  "select_columns names df =
     (let absent = filter (\<lambda>c. c \<notin> set (columns df)) names in
      if absent \<noteq> [] then Inl (KeyError absent)
      else Inr \<lparr>columns = names, rows = rows df\<rparr>)"

text \<open>
  The rows after the three coercions and
  \<^verbatim>\<open>dropna(subset=["Date", "Close", "Volume"])\<close>.
\<close>

definition clean_rows ::
  "timestamp option list \<Rightarrow> fl list \<Rightarrow> fl list \<Rightarrow> (timestamp \<times> fl \<times> fl) list" where
  "clean_rows dates closes volumes =
     concat (map (\<lambda>(t, c, v).
                    case t of None \<Rightarrow> []
                    | Some ts \<Rightarrow> if isnan c \<or> isnan v then [] else [(ts, c, v)])
       (zip dates (zip closes volumes)))"

text \<open>
  A cell of the cleaned table: a timestamp in the date column, a float in the others.
  On these columns the coercions of \<^verbatim>\<open>compute_metrics\<close> change nothing.
\<close>

datatype coerced = CDate timestamp | CNum fl

definition coerced_datetime :: "coerced list \<Rightarrow> timestamp option list" where
  "coerced_datetime cells = map (\<lambda>c. case c of CDate t \<Rightarrow> Some t | CNum x \<Rightarrow> None) cells"

definition coerced_numeric :: "coerced list \<Rightarrow> fl list" where
  "coerced_numeric cells = map (\<lambda>c. case c of CNum x \<Rightarrow> x | CDate t \<Rightarrow> NaN) cells"

definition cleaned_frame :: "(timestamp \<times> fl \<times> fl) list \<Rightarrow> coerced dataframe" where
  "cleaned_frame cleaned =
     \<lparr>columns = [''Date'', ''Close'', ''Volume''],
      rows = map (\<lambda>(t, c, v) name.
                    if name = ''Date'' then CDate t
                    else if name = ''Close'' then CNum c
                    else CNum v) cleaned\<rparr>"

text \<open>
  The figure written to the file: the x axis shared by the traces, the traces, and the
  lines of the summary. A metric is printed as a percentage with two decimals, or as
  "N/A" when it is not finite.
\<close>

datatype pct_text = NotAvailable | Percent real

definition pct :: "fl \<Rightarrow> pct_text" where
  "pct x = (case x of Fin r \<Rightarrow> Percent (r * 100) | _ \<Rightarrow> NotAvailable)"

record figure =
  fig_ticker :: string
  fig_period :: string
  fig_dates :: "timestamp list"
  fig_close :: "fl list"
  fig_ma50 :: "fl list"
  fig_ma200 :: "fl list"
  fig_volume :: "fl list"
  fig_return :: "fl list"
  fig_vol30 :: "fl list"
  fig_range :: "date_text \<times> date_text"
  fig_total_return :: pct_text
  fig_cagr :: pct_text
  fig_volatility :: pct_text
  fig_max_drawdown :: pct_text

text \<open>The effects of the program: the files written and the warnings recorded.\<close>

record world =
  files :: "string \<rightharpoonup> figure"
  warned :: "warning list"

definition MA50 :: "fl list \<Rightarrow> fl list" where
  "MA50 closes = rolling_mean 50 closes"

definition MA200 :: "fl list \<Rightarrow> fl list" where
  "MA200 closes = rolling_mean 200 closes"

definition Vol30 :: "fl list \<Rightarrow> fl list" where
  "Vol30 closes = map (\<lambda>x. fmul x (Fin (sqrt 252))) (rolling_std 30 (pct_change closes))"

definition build_dashboard_html ::
  "(string \<Rightarrow> string \<Rightarrow> 'c history option) \<Rightarrow> ('c list \<Rightarrow> timestamp option list)
     \<Rightarrow> ('c list \<Rightarrow> fl list) \<Rightarrow> string \<Rightarrow> string \<Rightarrow> string \<Rightarrow> world
     \<Rightarrow> (error + string) \<times> world" where
  "build_dashboard_html provider to_datetime to_numeric ticker period out_html w =
     (let t = normalize_canadian_ticker ticker in
      case provider t period of
        None \<Rightarrow> (Inl (ValueError (''No price data returned for ticker: '' @ t)), w)
      | Some hist \<Rightarrow>
          if hist_empty hist then
            (Inl (ValueError (''No price data returned for ticker: '' @ t)), w)
          else
            (case reset_index hist of
               Inl e \<Rightarrow> (Inl e, w)
             | Inr df0 \<Rightarrow>
                 (case select_columns [''Date'', ''Close'', ''Volume''] df0 of
                    Inl e \<Rightarrow> (Inl e, w)
                  | Inr df1 \<Rightarrow>
                      let df = clean_rows (to_datetime (column df1 ''Date''))
                                 (to_numeric (column df1 ''Close''))
                                 (to_numeric (column df1 ''Volume''))
                      in
                        if df = [] then
                          (Inl (ValueError
                                  (''Price data returned for '' @ t @
                                   '', but could not be parsed into numeric Date/Close/Volume.'')),
                           w)
                        else
                          let closes = map (\<lambda>(ts, c, v). c) df in
                          (case compute_metrics coerced_datetime coerced_numeric (cleaned_frame df) of
                             Inl e \<Rightarrow> (Inl e, w)
                           | Inr (m, ws) \<Rightarrow>
                               (Inr out_html,
                                w\<lparr>files := (files w)(out_html \<mapsto>
                                     \<lparr>fig_ticker = t, fig_period = period,
                                      fig_dates = map (\<lambda>(ts, c, v). ts) df,
                                      fig_close = closes,
                                      fig_ma50 = MA50 closes,
                                      fig_ma200 = MA200 closes,
                                      fig_volume = map (\<lambda>(ts, c, v). v) df,
                                      fig_return = pct_change closes,
                                      fig_vol30 = Vol30 closes,
                                      fig_range = (Start m, End m),
                                      fig_total_return = pct (Total_Return m),
                                      fig_cagr = pct (CAGR m),
                                      fig_volatility = pct (Annualized_Volatility m),
                                      fig_max_drawdown = pct (Max_Drawdown m)\<rparr>),
                                   warned := warned w @ ws\<rparr>)))))"

section \<open>Example tables\<close>

text \<open>
  Tables for the concrete instances below: one row per day from day 0 at midnight UTC, the
  given closes, and a volume of 1000 shares on every row.
\<close>

definition day :: "nat \<Rightarrow> timestamp" where
  "day n = \<lparr>instant = int n * day_ns, utcoffset = 0\<rparr>"

definition daily_rows :: "fl list \<Rightarrow> (timestamp \<times> fl \<times> fl) list" where
  "daily_rows closes = map (\<lambda>(n, c). (day n, c, Fin 1000)) (enumerate 0 closes)"

definition daily_frame :: "fl list \<Rightarrow> coerced dataframe" where
  "daily_frame closes = cleaned_frame (daily_rows closes)"



section \<open>Properties of ticker normalization\<close>



























section \<open>Properties of the summary metrics\<close>

lemma isnan_iff: "isnan x = (x = NaN)"
  by (cases x) simp_all












lemma compute_metrics_returns:
  "missing_columns df = [] \<Longrightarrow> \<exists>m ws. compute_metrics to_datetime to_numeric df = Inr (m, ws)"
  unfolding compute_metrics_def Let_def by (simp split: prod.splits)



lemmas metrics_eval = compute_metrics_def daily_frame_def daily_rows_def cleaned_frame_def
  column_def missing_columns_def coerced_datetime_def coerced_numeric_def valid_rows_def
  returned_rows_def enumerate_eq_zip fsub_def day_def date_of_def row_date_def day_ns_def
  total_return_of_def cagr_of_def volatility_of_def max_drawdown_def row_close_def
  row_return_def days_between_def finite_or_nan_def series_std_def dropna_def fsum_def
  cumprod_def cummax_def na_accum_func_def series_min_def fmaximum_def fminimum_def


lemma missing_columns_empty_iff:
  "(missing_columns df = []) = ({''Date'', ''Close'', ''Volume''} \<subseteq> set (columns df))"
  by (auto simp: missing_columns_def)

lemma set_missing_columns:
  "set (missing_columns df) = {''Date'', ''Close'', ''Volume''} - set (columns df)"
  by (auto simp: missing_columns_def)

text \<open>
  Claim C7. A table that lacks one of the columns \<open>Date\<close>, \<open>Close\<close>, \<open>Volume\<close> makes
  \<open>compute_metrics\<close> raise a \<open>ValueError\<close> that lists the absent labels, and no result is
  returned. Two tables that both have the three columns and agree on the cells of \<open>Date\<close>
  and \<open>Close\<close> give the same result: no other column is read.
\<close>

theorem compute_metrics_required_columns:
  "(\<not> {''Date'', ''Close'', ''Volume''} \<subseteq> set (columns df) \<longrightarrow>
      compute_metrics to_datetime to_numeric df =
        Inl (ValueError (''compute_metrics missing required columns: '' @
                          repr_list (missing_columns df))) \<and>
      missing_columns df \<noteq> [] \<and>
      set (missing_columns df) = {''Date'', ''Close'', ''Volume''} - set (columns df)) \<and>
   ({''Date'', ''Close'', ''Volume''} \<subseteq> set (columns df) \<and>
    {''Date'', ''Close'', ''Volume''} \<subseteq> set (columns df') \<and>
    column df' ''Date'' = column df ''Date'' \<and> column df' ''Close'' = column df ''Close'' \<longrightarrow>
      compute_metrics to_datetime to_numeric df' = compute_metrics to_datetime to_numeric df \<and>
      (\<exists>m ws. compute_metrics to_datetime to_numeric df = Inr (m, ws)))"
proof -
  have a: "compute_metrics to_datetime to_numeric df =
        Inl (ValueError (''compute_metrics missing required columns: '' @
                          repr_list (missing_columns df)))"
    if "missing_columns df \<noteq> []"
    using that by (simp add: compute_metrics_def)
  have b: "compute_metrics to_datetime to_numeric df' = compute_metrics to_datetime to_numeric df"
    if "missing_columns df = []" "missing_columns df' = []"
      "column df' ''Date'' = column df ''Date''" "column df' ''Close'' = column df ''Close''"
    using that by (simp add: compute_metrics_def)
  show ?thesis
    using a b compute_metrics_returns [of df to_datetime to_numeric]
    unfolding missing_columns_empty_iff [symmetric] set_missing_columns [symmetric]
    by blast
qed

theorem compute_metrics_required_columns_witness:
  "compute_metrics coerced_datetime coerced_numeric
     \<lparr>columns = [''Date'', ''Close''], rows = rows (daily_frame [Fin 1, Fin 2, Fin 4])\<rparr> =
     Inl (ValueError (''compute_metrics missing required columns: ['' @ [CHR 0x27] @ ''Volume'' @ [CHR 0x27] @ '']'')) \<and>
   compute_metrics coerced_datetime coerced_numeric
     \<lparr>columns = [''Open'', ''Date'', ''Close'', ''Volume''],
      rows = map (\<lambda>r. r(''Open'' := CNum (Fin 7), ''Volume'' := CNum (Fin 3)))
               (rows (daily_frame [Fin 1, Fin 2, Fin 4]))\<rparr> =
   compute_metrics coerced_datetime coerced_numeric (daily_frame [Fin 1, Fin 2, Fin 4])"
proof -
  let ?A = "\<lparr>columns = [''Date'', ''Close''], rows = rows (daily_frame [Fin 1, Fin 2, Fin 4])\<rparr>"
  let ?B = "\<lparr>columns = [''Open'', ''Date'', ''Close'', ''Volume''],
      rows = map (\<lambda>r. r(''Open'' := CNum (Fin 7), ''Volume'' := CNum (Fin 3)))
               (rows (daily_frame [Fin 1, Fin 2, Fin 4]))\<rparr>"
  let ?C = "daily_frame [Fin 1, Fin 2, Fin 4]"
  have 1: "\<not> {''Date'', ''Close'', ''Volume''} \<subseteq> set (columns ?A)" by simp
  have m: "missing_columns ?A = [''Volume'']" by (simp add: missing_columns_def)
  have 2: "{''Date'', ''Close'', ''Volume''} \<subseteq> set (columns ?C)"
    "{''Date'', ''Close'', ''Volume''} \<subseteq> set (columns ?B)"
    by (simp_all add: daily_frame_def cleaned_frame_def)
  have 3: "column ?B ''Date'' = column ?C ''Date''" "column ?B ''Close'' = column ?C ''Close''"
    by (simp_all add: column_def)
  have "compute_metrics coerced_datetime coerced_numeric ?A =
     Inl (ValueError (''compute_metrics missing required columns: '' @ repr_list (missing_columns ?A)))"
    using compute_metrics_required_columns [of ?A coerced_datetime coerced_numeric] 1 by blast
  moreover have "compute_metrics coerced_datetime coerced_numeric ?B =
     compute_metrics coerced_datetime coerced_numeric ?C"
    using compute_metrics_required_columns [of ?C coerced_datetime coerced_numeric ?B] 2 3 by blast
  ultimately show ?thesis by (simp add: m repr_list_def)
qed

text \<open>
  Claim C5. When fewer than two rows are left after the coercions, the removal of invalid
  rows, the returns and the removal of the rows without a return, \<open>compute_metrics\<close>
  does not raise: it returns NaN for total return, CAGR, annualized volatility and max
  drawdown, with one warning; the start and end dates are those of the row that is left,
  or "N/A" when none is.
\<close>

theorem compute_metrics_not_enough_rows:
  assumes "missing_columns df = []"
    and "d = returned_rows
               (valid_rows (to_datetime (column df ''Date'')) (to_numeric (column df ''Close'')))"
    and "length d < 2"
  shows "\<exists>m. compute_metrics to_datetime to_numeric df =
           Inr (m, [RuntimeWarning
                      ''Not enough data points to compute return-based metrics (need at least 2).'']) \<and>
           Total_Return m = NaN \<and> CAGR m = NaN \<and> Annualized_Volatility m = NaN \<and>
           Max_Drawdown m = NaN \<and>
           (d = [] \<longrightarrow> Start m = NA \<and> End m = NA) \<and>
           (\<forall>r. d = [r] \<longrightarrow> Start m = Iso (date_of (row_date r)) \<and> End m = Iso (date_of (row_date r)))"
  using assms(1,3) unfolding compute_metrics_def assms(2) [symmetric] Let_def by auto

theorem compute_metrics_not_enough_rows_witness:
  "missing_columns (daily_frame [Fin 1, Fin 2]) = [] \<and>
   returned_rows (valid_rows (coerced_datetime (column (daily_frame [Fin 1, Fin 2]) ''Date''))
                    (coerced_numeric (column (daily_frame [Fin 1, Fin 2]) ''Close''))) =
     [(day 1, Fin 2, Fin 1)] \<and>
   (\<exists>m. compute_metrics coerced_datetime coerced_numeric (daily_frame [Fin 1, Fin 2]) =
           Inr (m, [RuntimeWarning
                      ''Not enough data points to compute return-based metrics (need at least 2).'']) \<and>
        Total_Return m = NaN \<and> CAGR m = NaN \<and> Annualized_Volatility m = NaN \<and>
        Max_Drawdown m = NaN \<and> Start m = Iso 1 \<and> End m = Iso 1)"
proof -
  let ?F = "daily_frame [Fin 1, Fin 2]"
  have c: "missing_columns ?F = []"
    by (simp add: missing_columns_def daily_frame_def cleaned_frame_def)
  have d: "returned_rows (valid_rows (coerced_datetime (column ?F ''Date''))
                    (coerced_numeric (column ?F ''Close''))) = [(day 1, Fin 2, Fin 1)]"
    by (simp add: returned_rows_def valid_rows_def coerced_datetime_def coerced_numeric_def
        column_def daily_frame_def cleaned_frame_def daily_rows_def enumerate_eq_zip fsub_def)
  have e: "date_of (row_date (day 1, Fin 2, Fin 1)) = 1"
    by (simp add: date_of_def row_date_def day_def day_ns_def)
  have l: "length [(day 1, Fin 2, Fin 1)] < 2" by simp
  show ?thesis
    using compute_metrics_not_enough_rows
        [where to_datetime = coerced_datetime and to_numeric = coerced_numeric, OF c d [symmetric] l] c d e by auto
qed

lemma finite_or_nan_idem: "finite_or_nan (finite_or_nan x) = finite_or_nan x"
  by (cases x) (simp_all add: finite_or_nan_def)

lemma fst_total_return_of:
  "fst (total_return_of d) =
     finite_or_nan (fsub (fdiv (row_close (last d)) (row_close (hd d))) (Fin 1))"
  by (simp add: total_return_of_def Let_def finite_or_nan_def)

lemma compute_metrics_enough_rows:
  assumes "missing_columns df = []"
    and "d = returned_rows
               (valid_rows (to_datetime (column df ''Date'')) (to_numeric (column df ''Close'')))"
    and "2 \<le> length d"
  shows "\<exists>m ws. compute_metrics to_datetime to_numeric df = Inr (m, ws) \<and>
           Start m = Iso (date_of (row_date (hd d))) \<and>
           End m = Iso (date_of (row_date (last d))) \<and>
           Total_Return m = finite_or_nan (fst (total_return_of d))"
  using assms(1,3) unfolding compute_metrics_def assms(2) [symmetric] Let_def
  by (auto split: prod.splits)

text \<open>
  Claim C1, amended. For an accepted table with at least two rows left after cleaning, the
  total return is the last close divided by the first close of the rows that are left,
  minus 1, when that value is finite, and NaN otherwise. For finite closes with a first
  close other than zero it is the number \<open>last / first - 1\<close>.
\<close>

theorem compute_metrics_total_return:
  assumes "missing_columns df = []"
    and "d = returned_rows
               (valid_rows (to_datetime (column df ''Date'')) (to_numeric (column df ''Close'')))"
    and "2 \<le> length d"
  shows "\<exists>m ws. compute_metrics to_datetime to_numeric df = Inr (m, ws) \<and>
           Total_Return m =
             finite_or_nan (fsub (fdiv (row_close (last d)) (row_close (hd d))) (Fin 1)) \<and>
           (\<forall>a b. row_close (hd d) = Fin a \<and> row_close (last d) = Fin b \<and> a \<noteq> 0 \<longrightarrow>
              Total_Return m = Fin (b / a - 1))"
proof -
  obtain m ws where r: "compute_metrics to_datetime to_numeric df = Inr (m, ws)"
    and t: "Total_Return m = finite_or_nan (fst (total_return_of d))"
    using compute_metrics_enough_rows
        [where to_datetime = to_datetime and to_numeric = to_numeric, OF assms]
    by blast
  have t': "Total_Return m =
      finite_or_nan (fsub (fdiv (row_close (last d)) (row_close (hd d))) (Fin 1))"
    unfolding t fst_total_return_of finite_or_nan_idem ..
  have "Total_Return m = Fin (b / a - 1)"
    if "row_close (hd d) = Fin a" "row_close (last d) = Fin b" "a \<noteq> 0" for a b
    unfolding t' using that by (simp add: finite_or_nan_def fsub_def)
  with r t' show ?thesis by blast
qed

theorem compute_metrics_total_return_witness:
  "missing_columns (daily_frame [Fin 1, Fin 2, Fin 4]) = [] \<and>
   returned_rows (valid_rows (coerced_datetime (column (daily_frame [Fin 1, Fin 2, Fin 4]) ''Date''))
                    (coerced_numeric (column (daily_frame [Fin 1, Fin 2, Fin 4]) ''Close''))) =
     [(day 1, Fin 2, Fin 1), (day 2, Fin 4, Fin 1)] \<and>
   (\<exists>m ws. compute_metrics coerced_datetime coerced_numeric (daily_frame [Fin 1, Fin 2, Fin 4]) =
              Inr (m, ws) \<and> Total_Return m = Fin 1)"
proof -
  let ?F = "daily_frame [Fin 1, Fin 2, Fin 4]"
  let ?d = "[(day 1, Fin 2, Fin 1), (day 2, Fin 4, Fin 1)]"
  have c: "missing_columns ?F = []"
    by (simp add: missing_columns_def daily_frame_def cleaned_frame_def)
  have d: "returned_rows (valid_rows (coerced_datetime (column ?F ''Date''))
                    (coerced_numeric (column ?F ''Close''))) = ?d"
    by (simp add: returned_rows_def valid_rows_def coerced_datetime_def coerced_numeric_def
        column_def daily_frame_def cleaned_frame_def daily_rows_def enumerate_eq_zip fsub_def
        day_def)
  have l: "2 \<le> length ?d" by simp
  have e: "row_close (hd ?d) = Fin 2 \<and> row_close (last ?d) = Fin 4 \<and> (2::real) \<noteq> 0"
    by (simp add: row_close_def)
  obtain m ws where r: "compute_metrics coerced_datetime coerced_numeric ?F = Inr (m, ws)"
    and t: "\<forall>a b. row_close (hd ?d) = Fin a \<and> row_close (last ?d) = Fin b \<and> a \<noteq> 0 \<longrightarrow>
              Total_Return m = Fin (b / a - 1)"
    using compute_metrics_total_return
        [where to_datetime = coerced_datetime and to_numeric = coerced_numeric, OF c d [symmetric] l]
    by blast
  from t e have "Total_Return m = Fin (4 / 2 - 1)" by blast
  then have "Total_Return m = Fin 1" by simp
  with r c d show ?thesis by blast
qed

text \<open>
  Closes 5, 0, 6 on three days: two rows are left, with closes 0 and 6. The quotient
  \<open>6 / 0 - 1\<close> is infinite, and the total return reported is NaN.
\<close>

theorem compute_metrics_total_return_counterexample:
  "missing_columns (daily_frame [Fin 5, Fin 0, Fin 6]) = [] \<and>
   returned_rows (valid_rows (coerced_datetime (column (daily_frame [Fin 5, Fin 0, Fin 6]) ''Date''))
                    (coerced_numeric (column (daily_frame [Fin 5, Fin 0, Fin 6]) ''Close''))) =
     [(day 1, Fin 0, Fin (- 1)), (day 2, Fin 6, PInf)] \<and>
   compute_metrics coerced_datetime coerced_numeric (daily_frame [Fin 5, Fin 0, Fin 6]) =
     Inr (\<lparr>Start = Iso 1, End = Iso 2, Total_Return = NaN, CAGR = NaN,
           Annualized_Volatility = NaN, Max_Drawdown = NaN\<rparr>,
          [RuntimeWarning ''Total Return computed to a non-finite value.'',
           RuntimeWarning ''CAGR skipped because Total Return is not finite.'',
           RuntimeWarning ''Annualized Volatility computed to a non-finite value.'',
           RuntimeWarning ''Max drawdown computed to a non-finite value.'']) \<and>
   fsub (fdiv (Fin 6) (Fin 0)) (Fin 1) = PInf"
  by (simp add: metrics_eval)

lemma returned_rows_second:
  assumes "\<not> isnan (fsub (fdiv (snd b) (snd a)) (Fin 1))"
  shows "\<exists>tl. returned_rows (a # b # rest) =
           (fst b, snd b, fsub (fdiv (snd b) (snd a)) (Fin 1)) # tl"
  using assms by (simp add: returned_rows_def)

text \<open>
  Claim C10, amended. For an accepted table with at least two rows valid after the
  coercions, whose second valid row has a return that is not NaN, the start date is the
  date of the second valid row: the rows that are left begin with that row.
\<close>

theorem compute_metrics_start_second_row:
  assumes "missing_columns df = []"
    and "valid_rows (to_datetime (column df ''Date'')) (to_numeric (column df ''Close'')) =
           a # b # rest"
    and "\<not> isnan (fsub (fdiv (snd b) (snd a)) (Fin 1))"
  shows "\<exists>m ws. compute_metrics to_datetime to_numeric df = Inr (m, ws) \<and>
           Start m = Iso (date_of (fst b)) \<and>
           hd (returned_rows (a # b # rest)) = (fst b, snd b, fsub (fdiv (snd b) (snd a)) (Fin 1))"
proof -
  obtain tl where d: "returned_rows (a # b # rest) =
      (fst b, snd b, fsub (fdiv (snd b) (snd a)) (Fin 1)) # tl"
    using returned_rows_second [OF assms(3)] by blast
  show ?thesis
    using assms(1) unfolding compute_metrics_def assms(2) d Let_def
    by (auto simp: row_date_def split: prod.splits)
qed

theorem compute_metrics_start_second_row_witness:
  "missing_columns (daily_frame [Fin 1, Fin 2, Fin 4]) = [] \<and>
   valid_rows (coerced_datetime (column (daily_frame [Fin 1, Fin 2, Fin 4]) ''Date''))
     (coerced_numeric (column (daily_frame [Fin 1, Fin 2, Fin 4]) ''Close'')) =
     [(day 0, Fin 1), (day 1, Fin 2), (day 2, Fin 4)] \<and>
   \<not> isnan (fsub (fdiv (Fin 2) (Fin 1)) (Fin 1)) \<and>
   (\<exists>m ws. compute_metrics coerced_datetime coerced_numeric (daily_frame [Fin 1, Fin 2, Fin 4]) =
              Inr (m, ws) \<and> Start m = Iso 1)"
proof -
  let ?F = "daily_frame [Fin 1, Fin 2, Fin 4]"
  have c: "missing_columns ?F = []"
    by (simp add: missing_columns_def daily_frame_def cleaned_frame_def)
  have v: "valid_rows (coerced_datetime (column ?F ''Date'')) (coerced_numeric (column ?F ''Close'')) =
     (day 0, Fin 1) # (day 1, Fin 2) # [(day 2, Fin 4)]"
    by (simp add: valid_rows_def coerced_datetime_def coerced_numeric_def
        column_def daily_frame_def cleaned_frame_def daily_rows_def enumerate_eq_zip
        day_def)
  have n: "\<not> isnan (fsub (fdiv (snd (day 1, Fin 2)) (snd (day 0, Fin 1))) (Fin 1))"
    by (simp add: fsub_def)
  have e: "date_of (fst (day 1, Fin 2)) = 1"
    by (simp add: date_of_def day_def day_ns_def)
  have v': "valid_rows (coerced_datetime (column ?F ''Date'')) (coerced_numeric (column ?F ''Close'')) =
     [(day 0, Fin 1), (day 1, Fin 2), (day 2, Fin 4)]"
    using v by simp
  show ?thesis
    using compute_metrics_start_second_row
        [where to_datetime = coerced_datetime and to_numeric = coerced_numeric, OF c v n]
      c v' n e by auto
qed

text \<open>
  Closes 0, 0, 5 on three days: all three rows are valid, the return of the second is
  \<open>0 / 0\<close>, which is NaN, so the second row is removed too and the start date is that of
  the third row.
\<close>

theorem compute_metrics_start_counterexample:
  "valid_rows (coerced_datetime (column (daily_frame [Fin 0, Fin 0, Fin 5]) ''Date''))
     (coerced_numeric (column (daily_frame [Fin 0, Fin 0, Fin 5]) ''Close'')) =
     [(day 0, Fin 0), (day 1, Fin 0), (day 2, Fin 5)] \<and>
   date_of (day 1) = 1 \<and>
   compute_metrics coerced_datetime coerced_numeric (daily_frame [Fin 0, Fin 0, Fin 5]) =
     Inr (\<lparr>Start = Iso 2, End = Iso 2, Total_Return = NaN, CAGR = NaN,
           Annualized_Volatility = NaN, Max_Drawdown = NaN\<rparr>,
          [RuntimeWarning
             ''Not enough data points to compute return-based metrics (need at least 2).''])"
  by (simp add: metrics_eval)

section \<open>Properties of the dashboard\<close>

























lemma build_dashboard_html_no_history:
  assumes "provider (normalize_canadian_ticker ticker) period = None \<or>
           (\<exists>h. provider (normalize_canadian_ticker ticker) period = Some h \<and> hist_empty h)"
  shows "build_dashboard_html provider to_datetime to_numeric ticker period out_html w =
           (Inl (ValueError (''No price data returned for ticker: '' @
                             normalize_canadian_ticker ticker)), w)"
  using assms unfolding build_dashboard_html_def Let_def by (auto split: option.splits)

lemma build_dashboard_html_unparseable:
  assumes "provider (normalize_canadian_ticker ticker) period = Some h" and "\<not> hist_empty h"
    and "index_name h \<notin> set (hist_columns h)"
    and "{''Date'', ''Close'', ''Volume''} \<subseteq> set (index_name h # hist_columns h)"
    and "clean_rows (to_datetime (map (\<lambda>r. r ''Date'') (hist_rows h)))
           (to_numeric (map (\<lambda>r. r ''Close'') (hist_rows h)))
           (to_numeric (map (\<lambda>r. r ''Volume'') (hist_rows h))) = []"
  shows "build_dashboard_html provider to_datetime to_numeric ticker period out_html w =
           (Inl (ValueError (''Price data returned for '' @ normalize_canadian_ticker ticker @
               '', but could not be parsed into numeric Date/Close/Volume.'')), w)"
proof -
  have r: "reset_index h = Inr \<lparr>columns = index_name h # hist_columns h, rows = hist_rows h\<rparr>"
    using assms(3) by (simp add: reset_index_def)
  have s: "select_columns [''Date'', ''Close'', ''Volume'']
             \<lparr>columns = index_name h # hist_columns h, rows = hist_rows h\<rparr> =
           Inr \<lparr>columns = [''Date'', ''Close'', ''Volume''], rows = hist_rows h\<rparr>"
    using assms(4) by (auto simp: select_columns_def)
  show ?thesis
    unfolding build_dashboard_html_def Let_def using assms(1,2,5)
    by (simp add: r s column_def)
qed

text \<open>
  Claim C6. When the provider answers nothing or an empty table, \<open>build_dashboard_html\<close>
  raises a \<open>ValueError\<close> whose message ends with the normalized ticker; when the table has
  the columns but no row with a date, a close and a volume that all parse, it raises a
  \<open>ValueError\<close> whose message holds the normalized ticker. In both cases the files and the
  warnings are as before the call: no output file is written.
\<close>

theorem build_dashboard_html_fatal:
  "((provider (normalize_canadian_ticker ticker) period = None \<or>
     (\<exists>h. provider (normalize_canadian_ticker ticker) period = Some h \<and> hist_empty h)) \<longrightarrow>
      build_dashboard_html provider to_datetime to_numeric ticker period out_html w =
        (Inl (ValueError (''No price data returned for ticker: '' @
                          normalize_canadian_ticker ticker)), w)) \<and>
   (\<forall>h. provider (normalize_canadian_ticker ticker) period = Some h \<and> \<not> hist_empty h \<and>
        index_name h \<notin> set (hist_columns h) \<and>
        {''Date'', ''Close'', ''Volume''} \<subseteq> set (index_name h # hist_columns h) \<and>
        clean_rows (to_datetime (map (\<lambda>r. r ''Date'') (hist_rows h)))
          (to_numeric (map (\<lambda>r. r ''Close'') (hist_rows h)))
          (to_numeric (map (\<lambda>r. r ''Volume'') (hist_rows h))) = [] \<longrightarrow>
      build_dashboard_html provider to_datetime to_numeric ticker period out_html w =
        (Inl (ValueError (''Price data returned for '' @ normalize_canadian_ticker ticker @
            '', but could not be parsed into numeric Date/Close/Volume.'')), w))"
  using build_dashboard_html_no_history [of provider ticker period to_datetime to_numeric out_html w]
    build_dashboard_html_unparseable [of provider ticker period _ to_datetime to_numeric out_html w]
  by blast

theorem build_dashboard_html_fatal_witness:
  "build_dashboard_html (\<lambda>t p. None) coerced_datetime coerced_numeric ''ry'' ''1y'' ''ry.html''
     \<lparr>files = Map.empty, warned = []\<rparr> =
     (Inl (ValueError ''No price data returned for ticker: RY.TO''),
      \<lparr>files = Map.empty, warned = []\<rparr>) \<and>
   build_dashboard_html
     (\<lambda>t p. Some \<lparr>index_name = ''Date'', hist_columns = [''Close'', ''Volume''],
                  hist_rows = [\<lambda>name. CNum NaN]\<rparr>)
     coerced_datetime coerced_numeric ''ry'' ''1y'' ''ry.html''
     \<lparr>files = Map.empty, warned = []\<rparr> =
     (Inl (ValueError
        ''Price data returned for RY.TO, but could not be parsed into numeric Date/Close/Volume.''),
      \<lparr>files = Map.empty, warned = []\<rparr>)"
proof -
  let ?w = "\<lparr>files = Map.empty, warned = []\<rparr>"
  let ?h = "\<lparr>index_name = ''Date'', hist_columns = [''Close'', ''Volume''],
                  hist_rows = [\<lambda>name. CNum NaN]\<rparr> :: coerced history"
  have t: "normalize_canadian_ticker ''ry'' = ''RY.TO''" by code_simp
  have 1: "build_dashboard_html (\<lambda>t p. None) coerced_datetime coerced_numeric ''ry'' ''1y'' ''ry.html'' ?w =
     (Inl (ValueError (''No price data returned for ticker: '' @ normalize_canadian_ticker ''ry'')), ?w)"
    using build_dashboard_html_fatal
      [of "\<lambda>t p. None" "''ry''" "''1y''" coerced_datetime coerced_numeric "''ry.html''" ?w]
    by simp
  have h: "\<not> hist_empty ?h \<and> index_name ?h \<notin> set (hist_columns ?h) \<and>
        {''Date'', ''Close'', ''Volume''} \<subseteq> set (index_name ?h # hist_columns ?h) \<and>
        clean_rows (coerced_datetime (map (\<lambda>r. r ''Date'') (hist_rows ?h)))
          (coerced_numeric (map (\<lambda>r. r ''Close'') (hist_rows ?h)))
          (coerced_numeric (map (\<lambda>r. r ''Volume'') (hist_rows ?h))) = []"
    by (simp add: hist_empty_def clean_rows_def coerced_datetime_def coerced_numeric_def)
  have 2: "build_dashboard_html (\<lambda>t p. Some ?h) coerced_datetime coerced_numeric ''ry'' ''1y'' ''ry.html'' ?w =
     (Inl (ValueError (''Price data returned for '' @ normalize_canadian_ticker ''ry'' @
            '', but could not be parsed into numeric Date/Close/Volume.'')), ?w)"
    using build_dashboard_html_fatal
      [of "\<lambda>t p. Some ?h" "''ry''" "''1y''" coerced_datetime coerced_numeric "''ry.html''" ?w] h
    by simp
  show ?thesis using 1 2 unfolding t by simp
qed









section \<open>Properties of the maximum drawdown\<close>

lemma length_accum_from: "length (accum_from f a xs) = length xs"
  by (induction xs arbitrary: a) simp_all

lemma length_accumulate: "length (accumulate f xs) = length xs"
  by (cases xs) (simp_all add: length_accum_from)

lemma accum_from_nth:
  "i < length xs \<Longrightarrow> accum_from f a xs ! i = foldl f a (take (Suc i) xs)"
proof (induction xs arbitrary: a i)
  case Nil
  then show ?case by simp
next
  case (Cons x xs)
  then show ?case by (cases i) simp_all
qed

lemma accumulate_nth:
  assumes "i < length xs" and "f e (hd xs) = hd xs"
  shows "accumulate f xs ! i = foldl f e (take (Suc i) xs)"
proof (cases xs)
  case Nil
  with assms show ?thesis by simp
next
  case (Cons x ys)
  with assms show ?thesis by (cases i) (simp_all add: accum_from_nth)
qed

lemma accum_from_closed:
  assumes "\<And>b x. P b \<Longrightarrow> x \<in> set xs \<Longrightarrow> P (f b x)" and "P a"
  shows "\<forall>y \<in> set (accum_from f a xs). P y"
  using assms
proof (induction xs arbitrary: a)
  case Nil
  then show ?case by simp
next
  case (Cons x xs)
  have "P (f a x)" using Cons.prems by simp
  moreover have "\<forall>y \<in> set (accum_from f (f a x) xs). P y"
    using Cons.prems \<open>P (f a x)\<close> by (intro Cons.IH) simp_all
  ultimately show ?case by simp
qed

lemma accumulate_closed:
  assumes "\<And>b x. P b \<Longrightarrow> x \<in> set xs \<Longrightarrow> P (f b x)" and "xs \<noteq> [] \<Longrightarrow> P (hd xs)"
  shows "\<forall>y \<in> set (accumulate f xs). P y"
proof (cases xs)
  case Nil
  then show ?thesis by simp
next
  case (Cons x ys)
  have "\<forall>y \<in> set (accum_from f x ys). P y"
    using assms Cons by (intro accum_from_closed) simp_all
  with assms(2) Cons show ?thesis by simp
qed

lemma na_accum_func_no_nan:
  assumes "\<forall>x \<in> set xs. \<not> isnan x"
  shows "na_accum_func f e xs = accumulate f xs"
proof -
  have m: "map (\<lambda>x. if isnan x then e else x) xs = xs"
    using assms by (intro map_idI) simp
  have "map2 (\<lambda>x r. if isnan x then NaN else r) xs ys = ys" if "length ys = length xs" for ys
    using that assms
  proof (induction xs arbitrary: ys)
    case Nil
    then show ?case by simp
  next
    case (Cons x xs)
    then show ?case by (cases ys) simp_all
  qed
  then show ?thesis by (simp add: na_accum_func_def m length_accumulate)
qed

lemma length_na_accum_func: "length (na_accum_func f e xs) = length xs"
  by (simp add: na_accum_func_def length_accumulate)

lemma na_accum_func_nth:
  assumes "i < length xs"
  shows "na_accum_func f e xs ! i =
     (if isnan (xs ! i) then NaN
      else accumulate f (map (\<lambda>x. if isnan x then e else x) xs) ! i)"
  using assms by (simp add: na_accum_func_def length_accumulate)

lemma fmul_one_left: "fmul (Fin 1) x = x"
  by (cases x) simp_all

lemma fmaximum_ninf_left: "\<not> isnan x \<Longrightarrow> fmaximum NInf x = x"
  by (cases x) (simp_all add: fmaximum_def)

lemma fmaximum_ninf_right: "\<not> isnan a \<Longrightarrow> fmaximum a NInf = a"
  by (cases a) (simp_all add: fmaximum_def)

lemma isnan_fmaximum: "isnan (fmaximum a b) = (isnan a \<or> isnan b)"
  by (cases a; cases b) (simp_all add: fmaximum_def)

lemma isnan_fadd_one: "isnan (fadd (Fin 1) x) = isnan x"
  by (cases x) simp_all

lemma foldl_fmaximum_masked:
  "\<not> isnan a \<Longrightarrow>
   foldl fmaximum a (map (\<lambda>x. if isnan x then NInf else x) ys) = foldl fmaximum a (dropna ys)"
proof (induction ys arbitrary: a)
  case Nil
  then show ?case by (simp add: dropna_def)
next
  case (Cons y ys)
  show ?case
  proof (cases "isnan y")
    case True
    then show ?thesis using Cons by (simp add: dropna_def fmaximum_ninf_right)
  next
    case False
    then have "\<not> isnan (fmaximum a y)" using Cons.prems by (simp add: isnan_fmaximum)
    then show ?thesis using False Cons.IH [of "fmaximum a y"] by (simp add: dropna_def)
  qed
qed

lemma cumprod_wealth_index:
  assumes "\<forall>x \<in> set s. \<not> isnan x" and "i < length s"
  shows "cumprod (map (fadd (Fin 1)) s) ! i = wealth_index s i"
proof -
  let ?xs = "map (fadd (Fin 1)) s"
  have nn: "\<forall>x \<in> set ?xs. \<not> isnan x" using assms(1) by (simp add: isnan_fadd_one)
  have il: "i < length ?xs" using assms(2) by simp
  have "cumprod ?xs ! i = accumulate fmul ?xs ! i"
    by (simp only: cumprod_def na_accum_func_no_nan [OF nn])
  also have "\<dots> = foldl fmul (Fin 1) (take (Suc i) ?xs)"
    using il by (rule accumulate_nth) (rule fmul_one_left)
  also have "\<dots> = wealth_index s i"
    by (simp only: wealth_index_def take_map)
  finally show ?thesis .
qed

lemma take_Suc_map_nth:
  assumes "i < length cs" and "\<forall>j < length cs. cs ! j = g j"
  shows "take (Suc i) cs = map g [0..<Suc i]"
proof (rule nth_equalityI)
  show "length (take (Suc i) cs) = length (map g [0..<Suc i])" using assms(1) by simp
next
  fix j assume "j < length (take (Suc i) cs)"
  then have j: "j < Suc i" "j < length cs" by simp_all
  then have "map g [0..<Suc i] ! j = g j"
    by (metis add_0 length_upt minus_nat.diff_0 nth_map nth_upt)
  then show "take (Suc i) cs ! j = map g [0..<Suc i] ! j"
    using j assms(2) by simp
qed

lemma cummax_running_max:
  assumes "\<forall>j < length cs. cs ! j = wealth_index s j" and "i < length cs"
  shows "cummax cs ! i = running_max s i"
proof -
  let ?m = "map (\<lambda>x. if isnan x then NInf else x) cs"
  have il: "i < length ?m" using assms(2) by simp
  have ne: "cs \<noteq> []" using assms(2) by auto
  have hd: "fmaximum NInf (hd ?m) = hd ?m"
    using ne by (intro fmaximum_ninf_left) (simp add: hd_map)
  have "accumulate fmaximum ?m ! i = foldl fmaximum NInf (take (Suc i) ?m)"
    using il hd by (rule accumulate_nth)
  also have "\<dots> = foldl fmaximum NInf (map (\<lambda>x. if isnan x then NInf else x) (take (Suc i) cs))"
    by (simp only: take_map)
  also have "\<dots> = foldl fmaximum NInf (dropna (take (Suc i) cs))"
    by (rule foldl_fmaximum_masked) simp
  also have "\<dots> = foldl fmaximum NInf (dropna (map (wealth_index s) [0..<Suc i]))"
    by (simp only: take_Suc_map_nth [OF assms(2,1)])
  finally have a: "accumulate fmaximum ?m ! i =
      foldl fmaximum NInf (dropna (map (wealth_index s) [0..<Suc i]))" .
  have "cummax cs ! i = (if isnan (cs ! i) then NaN else accumulate fmaximum ?m ! i)"
    unfolding cummax_def using assms(2) by (rule na_accum_func_nth)
  then show ?thesis
    using assms by (simp add: a running_max_def)
qed

lemma drawdown_series:
  assumes "\<forall>x \<in> set s. \<not> isnan x"
  shows "map (\<lambda>x. fsub x (Fin 1))
           (map2 fdiv (cumprod (map (fadd (Fin 1)) s)) (cummax (cumprod (map (fadd (Fin 1)) s)))) =
         map (drawdown_at s) [0..<length s]"
proof -
  let ?c = "cumprod (map (fadd (Fin 1)) s)"
  have lc: "length ?c = length s" by (simp add: cumprod_def length_na_accum_func)
  have lp: "length (cummax ?c) = length s" by (simp add: cummax_def length_na_accum_func lc)
  have c: "\<forall>j < length ?c. ?c ! j = wealth_index s j"
    using cumprod_wealth_index [OF assms] lc by simp
  show ?thesis
  proof (rule nth_equalityI)
    show "length (map (\<lambda>x. fsub x (Fin 1)) (map2 fdiv ?c (cummax ?c))) =
          length (map (drawdown_at s) [0..<length s])"
      by (simp add: lc lp)
  next
    fix i assume "i < length (map (\<lambda>x. fsub x (Fin 1)) (map2 fdiv ?c (cummax ?c)))"
    then have i: "i < length s" by (simp add: lc lp)
    then have ic: "i < length ?c" using lc by simp
    have p: "cummax ?c ! i = running_max s i" using c ic by (rule cummax_running_max)
    have w: "?c ! i = wealth_index s i" using c ic by blast
    show "map (\<lambda>x. fsub x (Fin 1)) (map2 fdiv ?c (cummax ?c)) ! i =
          map (drawdown_at s) [0..<length s] ! i"
      using i by (simp add: lc lp p w drawdown_at_def)
  qed
qed

lemma dropna_no_nan: "\<forall>x \<in> set (dropna xs). \<not> isnan x"
  by (simp add: dropna_def)

lemma max_drawdown_refines:
  assumes "dropna (to_numeric series) \<noteq> []"
  shows "fst (max_drawdown to_numeric series) = worst_drawdown (dropna (to_numeric series))"
  using assms
  unfolding max_drawdown_def Let_def drawdown_series [OF dropna_no_nan] worst_drawdown_def
    finite_or_nan_def
  by simp

lemma fle_trans: "fle a b \<Longrightarrow> fle b c \<Longrightarrow> fle a c"
  by (cases a; cases b; cases c) simp_all

lemma fle_refl: "\<not> isnan a \<Longrightarrow> fle a a"
  by (cases a) simp_all

lemma fle_total: "\<not> isnan a \<Longrightarrow> \<not> isnan b \<Longrightarrow> fle a b \<or> fle b a"
  by (cases a; cases b) auto

lemma isnan_fminimum: "isnan (fminimum a b) = (isnan a \<or> isnan b)"
  by (cases a; cases b) (simp_all add: fminimum_def)

lemma fminimum_le_left: "\<not> isnan a \<Longrightarrow> \<not> isnan b \<Longrightarrow> fle (fminimum a b) a"
  using fle_total [of a b] fle_refl [of a] by (auto simp: fminimum_def)

lemma foldl_fminimum_le:
  "\<not> isnan v \<Longrightarrow> \<forall>x \<in> set vs. \<not> isnan x \<Longrightarrow> fle (foldl fminimum v vs) v"
proof (induction vs arbitrary: v)
  case Nil
  then show ?case by (simp add: fle_refl)
next
  case (Cons x vs)
  have "\<not> isnan (fminimum v x)" using Cons.prems by (simp add: isnan_fminimum)
  then have "fle (foldl fminimum (fminimum v x) vs) (fminimum v x)"
    using Cons.prems by (intro Cons.IH) simp_all
  moreover have "fle (fminimum v x) v" using Cons.prems by (intro fminimum_le_left) simp_all
  ultimately show ?case using fle_trans by auto
qed

lemma series_min_le_head:
  assumes "\<not> isnan v"
  shows "fle (series_min (v # vs)) v"
proof -
  have "series_min (v # vs) = foldl fminimum v (dropna vs)"
    using assms by (simp add: series_min_def dropna_def)
  then show ?thesis using assms foldl_fminimum_le [of v "dropna vs"] dropna_no_nan by simp
qed

lemma series_min_all_nan:
  assumes "\<forall>x \<in> set xs. x = NaN"
  shows "series_min xs = NaN"
proof -
  have "dropna xs = []" using assms by (auto simp: dropna_def filter_empty_conv)
  then show ?thesis by (simp add: series_min_def)
qed

lemma set_map2_elem:
  assumes "z \<in> set (map2 f xs ys)"
  shows "\<exists>x \<in> set xs. \<exists>y \<in> set ys. z = f x y"
proof -
  from assms obtain q where q: "q \<in> set (zip xs ys)" and z: "z = (case q of (x, y) \<Rightarrow> f x y)"
    unfolding set_map by (rule imageE)
  obtain x y where xy: "q = (x, y)" by (cases q)
  have "x \<in> set xs" using q unfolding xy by (rule set_zip_leftD)
  moreover have "y \<in> set ys" using q unfolding xy by (rule set_zip_rightD)
  moreover have "z = f x y" by (simp add: z xy)
  ultimately show ?thesis by blast
qed

lemma cummax_closed:
  assumes step: "\<And>b x. P b \<Longrightarrow> x \<in> set cs \<Longrightarrow> P (fmaximum b (if isnan x then NInf else x))"
    and start: "cs \<noteq> [] \<Longrightarrow> P (if isnan (hd cs) then NInf else hd cs)"
  shows "\<forall>p \<in> set (cummax cs). p = NaN \<or> P p"
proof -
  let ?m = "map (\<lambda>x. if isnan x then NInf else x) cs"
  have acc: "\<forall>y \<in> set (accumulate fmaximum ?m). P y"
  proof (rule accumulate_closed)
    fix b x assume b: "P b" and "x \<in> set ?m"
    then have "x \<in> (\<lambda>x. if isnan x then NInf else x) ` set cs" by (simp only: set_map)
    then obtain x' where x': "x' \<in> set cs" and x: "x = (if isnan x' then NInf else x')"
      by (rule imageE)
    show "P (fmaximum b x)" unfolding x using b x' by (rule step)
  next
    assume "?m \<noteq> []"
    then have "cs \<noteq> []" by simp
    then show "P (hd ?m)" using start by (simp add: hd_map)
  qed
  show ?thesis
  proof
    fix p assume "p \<in> set (cummax cs)"
    then have "p \<in> set (map2 (\<lambda>x r. if isnan x then NaN else r) cs (accumulate fmaximum ?m))"
      by (simp only: cummax_def na_accum_func_def)
    from set_map2_elem [OF this]
    obtain c a where a: "a \<in> set (accumulate fmaximum ?m)" and p: "p = (if isnan c then NaN else a)"
      by blast
    have "P a" using acc a by blast
    then show "p = NaN \<or> P p" unfolding p by simp
  qed
qed

lemma drawdowns_all_nan:
  assumes "\<forall>c \<in> set cs. Qc c" and "\<forall>p \<in> set ps. Qp p"
    and "\<And>c p. Qc c \<Longrightarrow> Qp p \<Longrightarrow> fdiv c p = NaN"
  shows "series_min (map (\<lambda>x. fsub x (Fin 1)) (map2 fdiv cs ps)) = NaN"
proof (rule series_min_all_nan)
  show "\<forall>x \<in> set (map (\<lambda>x. fsub x (Fin 1)) (map2 fdiv cs ps)). x = NaN"
  proof
    fix x assume "x \<in> set (map (\<lambda>x. fsub x (Fin 1)) (map2 fdiv cs ps))"
    then obtain z where z: "z \<in> set (map2 fdiv cs ps)" and x: "x = fsub z (Fin 1)" by auto
    from set_map2_elem [OF z]
    obtain c p where c: "c \<in> set cs" and p: "p \<in> set ps" and zz: "z = fdiv c p"
      by blast
    have "Qc c" "Qp p" using c p assms(1,2) by blast+
    then have "z = NaN" unfolding zz by (rule assms(3))
    then show "x = NaN" by (simp add: x fsub_def)
  qed
qed

lemma cummax_Cons:
  assumes "\<not> isnan c"
  shows "\<exists>ps. cummax (c # cs) = c # ps"
  using assms by (simp add: cummax_def na_accum_func_def)

lemma cumprod_returns:
  assumes "\<forall>x \<in> set s. \<not> isnan x"
  shows "cumprod (map (fadd (Fin 1)) s) = accumulate fmul (map (fadd (Fin 1)) s)"
  unfolding cumprod_def
  by (rule na_accum_func_no_nan) (simp add: isnan_fadd_one assms)

lemma drawdown_zero_start:
  assumes cum: "cum = accumulate fmul xs" and xs: "xs \<noteq> []" and hd: "hd xs = Fin 0"
  shows "series_min (map (\<lambda>x. fsub x (Fin 1)) (map2 fdiv cum (cummax cum))) = NaN"
proof (rule drawdowns_all_nan)
  show c: "\<forall>c \<in> set cum. c = Fin 0 \<or> c = NaN"
    unfolding cum
  proof (rule accumulate_closed)
    fix b x :: fl assume "b = Fin 0 \<or> b = NaN"
    then show "fmul b x = Fin 0 \<or> fmul b x = NaN" by (cases x) auto
  next
    show "hd xs = Fin 0 \<or> hd xs = NaN" using hd by simp
  qed
  have cne: "cum \<noteq> []" and chd: "hd cum = Fin 0"
    using xs hd unfolding cum by (cases xs; simp)+
  show "\<forall>p \<in> set (cummax cum). p = NaN \<or> p = Fin 0"
  proof (rule cummax_closed)
    fix b x assume "b = Fin 0" and "x \<in> set cum"
    then have "x = Fin 0 \<or> x = NaN" using c by blast
    then show "fmaximum b (if isnan x then NInf else x) = Fin 0"
      using \<open>b = Fin 0\<close> by (auto simp: fmaximum_def)
  next
    show "(if isnan (hd cum) then NInf else hd cum) = Fin 0" by (simp add: chd)
  qed
next
  fix c p :: fl assume "c = Fin 0 \<or> c = NaN" and "p = NaN \<or> p = Fin 0"
  then show "fdiv c p = NaN" by auto
qed

lemma drawdown_infinite_start:
  assumes cum: "cum = accumulate fmul xs" and xs: "xs \<noteq> []" and nn: "\<forall>x \<in> set xs. \<not> isnan x"
    and hd: "hd xs = PInf \<or> hd xs = NInf"
  shows "series_min (map (\<lambda>x. fsub x (Fin 1)) (map2 fdiv cum (cummax cum))) = NaN"
proof (rule drawdowns_all_nan)
  show c: "\<forall>c \<in> set cum. c = PInf \<or> c = NInf \<or> c = NaN"
    unfolding cum
  proof (rule accumulate_closed)
    fix b x :: fl assume "b = PInf \<or> b = NInf \<or> b = NaN"
    then show "fmul b x = PInf \<or> fmul b x = NInf \<or> fmul b x = NaN"
      by (cases x) (auto split: if_splits)
  next
    show "hd xs = PInf \<or> hd xs = NInf \<or> hd xs = NaN" using hd by blast
  qed
  have cne: "cum \<noteq> []" and chd: "hd cum = hd xs"
    using xs unfolding cum by (cases xs; simp)+
  show "\<forall>p \<in> set (cummax cum). p = NaN \<or> (p = PInf \<or> p = NInf)"
  proof (rule cummax_closed)
    fix b x assume b: "b = PInf \<or> b = NInf" and "x \<in> set cum"
    then have "x = PInf \<or> x = NInf \<or> x = NaN" using c by blast
    then show "fmaximum b (if isnan x then NInf else x) = PInf \<or>
               fmaximum b (if isnan x then NInf else x) = NInf"
      using b by (auto simp: fmaximum_def)
  next
    show "(if isnan (hd cum) then NInf else hd cum) = PInf \<or>
          (if isnan (hd cum) then NInf else hd cum) = NInf"
      using hd by (auto simp: chd)
  qed
next
  fix c p :: fl assume "c = PInf \<or> c = NInf \<or> c = NaN" and "p = NaN \<or> (p = PInf \<or> p = NInf)"
  then show "fdiv c p = NaN" by auto
qed

lemma drawdown_regular_start:
  assumes cum: "cum = accumulate fmul xs" and xs: "xs \<noteq> []" and hd: "hd xs = Fin a" and a: "a \<noteq> 0"
  shows "fle (series_min (map (\<lambda>x. fsub x (Fin 1)) (map2 fdiv cum (cummax cum)))) (Fin 0)"
proof -
  obtain cs where c: "cum = Fin a # cs"
    using xs hd unfolding cum by (cases xs) simp_all
  obtain ps where p: "cummax (Fin a # cs) = Fin a # ps"
    using cummax_Cons [of "Fin a" cs] by auto
  have "map (\<lambda>x. fsub x (Fin 1)) (map2 fdiv cum (cummax cum)) =
        Fin 0 # map (\<lambda>x. fsub x (Fin 1)) (map2 fdiv cs ps)"
    unfolding c p using a by (simp add: fsub_def)
  then show ?thesis by (simp add: series_min_le_head)
qed

lemma drawdown_nonpositive:
  assumes "s \<noteq> []" and nn: "\<forall>x \<in> set s. \<not> isnan x"
  shows "series_min (map (\<lambda>x. fsub x (Fin 1))
           (map2 fdiv (cumprod (map (fadd (Fin 1)) s))
              (cummax (cumprod (map (fadd (Fin 1)) s))))) = NaN \<or>
         fle (series_min (map (\<lambda>x. fsub x (Fin 1))
           (map2 fdiv (cumprod (map (fadd (Fin 1)) s))
              (cummax (cumprod (map (fadd (Fin 1)) s)))))) (Fin 0)"
proof -
  let ?xs = "map (fadd (Fin 1)) s"
  have cum: "cumprod ?xs = accumulate fmul ?xs" using nn by (rule cumprod_returns)
  have xs: "?xs \<noteq> []" using assms(1) by simp
  have xnn: "\<forall>x \<in> set ?xs. \<not> isnan x" using nn by (simp add: isnan_fadd_one)
  then have h: "\<not> isnan (hd ?xs)" using xs by (meson hd_in_set)
  show ?thesis
  proof (cases "hd ?xs")
    case (Fin a)
    show ?thesis
    proof (cases "a = 0")
      case True
      then show ?thesis using drawdown_zero_start [OF cum xs] Fin by simp
    next
      case False
      then show ?thesis using drawdown_regular_start [OF cum xs Fin] by simp
    qed
  next
    case PInf
    then show ?thesis using drawdown_infinite_start [OF cum xs xnn] by simp
  next
    case NInf
    then show ?thesis using drawdown_infinite_start [OF cum xs xnn] by simp
  next
    case NaN
    with h show ?thesis by simp
  qed
qed

lemma max_drawdown_nonpositive:
  "fst (max_drawdown to_numeric series) = NaN \<or>
   (\<exists>r. r \<le> 0 \<and> fst (max_drawdown to_numeric series) = Fin r)"
proof (cases "dropna (to_numeric series) = []")
  case True
  then show ?thesis by (simp add: max_drawdown_def)
next
  case False
  let ?out = "series_min (map (\<lambda>x. fsub x (Fin 1))
           (map2 fdiv (cumprod (map (fadd (Fin 1)) (dropna (to_numeric series))))
              (cummax (cumprod (map (fadd (Fin 1)) (dropna (to_numeric series)))))))"
  have r: "fst (max_drawdown to_numeric series) = finite_or_nan ?out"
    using False unfolding max_drawdown_def Let_def finite_or_nan_def by simp
  have "?out = NaN \<or> fle ?out (Fin 0)"
    using False dropna_no_nan by (rule drawdown_nonpositive)
  then show ?thesis unfolding r by (cases ?out) (simp_all add: finite_or_nan_def)
qed

lemma foldl_fminimum_const:
  "\<forall>x \<in> set vs. x = Fin a \<Longrightarrow> foldl fminimum (Fin a) vs = Fin a"
  by (induction vs) (simp_all add: fminimum_def)

lemma series_min_const:
  assumes "xs \<noteq> []" and "\<forall>x \<in> set xs. x = Fin a"
  shows "series_min xs = Fin a"
proof -
  obtain v vs where xs: "xs = v # vs" using assms(1) by (cases xs) auto
  have d: "dropna xs = xs" using assms(2) unfolding dropna_def by (intro filter_True) auto
  have "v = Fin a" "\<forall>x \<in> set vs. x = Fin a" using assms(2) xs by simp_all
  then have "foldl fminimum v vs = Fin a" by (simp add: foldl_fminimum_const)
  moreover have "series_min xs = foldl fminimum v vs"
    unfolding series_min_def d by (simp add: xs)
  ultimately show ?thesis by simp
qed

lemma drawdown_all_zero:
  assumes ne: "s \<noteq> []" and z: "\<forall>x \<in> set s. x = Fin 0"
  shows "series_min (map (\<lambda>x. fsub x (Fin 1))
           (map2 fdiv (cumprod (map (fadd (Fin 1)) s))
              (cummax (cumprod (map (fadd (Fin 1)) s))))) = Fin 0"
proof -
  let ?xs = "map (fadd (Fin 1)) s"
  let ?c = "cumprod ?xs"
  have nn: "\<forall>x \<in> set s. \<not> isnan x" using z by auto
  have x1: "\<forall>x \<in> set ?xs. x = Fin 1" using z by auto
  have cum: "?c = accumulate fmul ?xs" using nn by (rule cumprod_returns)
  have c1: "\<forall>c \<in> set ?c. c = Fin 1"
    unfolding cum
  proof (rule accumulate_closed)
    fix b x assume "b = Fin 1" and "x \<in> set ?xs"
    then show "fmul b x = Fin 1" using x1 by auto
  next
    assume "?xs \<noteq> []"
    then show "hd ?xs = Fin 1" using x1 by (meson hd_in_set)
  qed
  have lc: "length ?c = length s" by (simp add: cumprod_def length_na_accum_func)
  have cnn: "\<forall>c \<in> set ?c. \<not> isnan c" using c1 by auto
  have peak: "cummax ?c = accumulate fmaximum ?c"
    unfolding cummax_def using cnn by (rule na_accum_func_no_nan)
  have p1: "\<forall>p \<in> set (cummax ?c). p = Fin 1"
    unfolding peak
  proof (rule accumulate_closed)
    fix b x assume "b = Fin 1" and "x \<in> set ?c"
    then show "fmaximum b x = Fin 1" using c1 by (auto simp: fmaximum_def)
  next
    assume "?c \<noteq> []"
    then show "hd ?c = Fin 1" using c1 by (meson hd_in_set)
  qed
  have lp: "length (cummax ?c) = length s" by (simp add: cummax_def length_na_accum_func lc)
  let ?dd = "map (\<lambda>x. fsub x (Fin 1)) (map2 fdiv ?c (cummax ?c))"
  have "?dd \<noteq> []" using ne lc lp by (cases ?c; cases "cummax ?c") auto
  moreover have "\<forall>d \<in> set ?dd. d = Fin 0"
  proof
    fix d assume "d \<in> set ?dd"
    then have "d \<in> (\<lambda>x. fsub x (Fin 1)) ` set (map2 fdiv ?c (cummax ?c))" by (simp only: set_map)
    then obtain q where q: "q \<in> set (map2 fdiv ?c (cummax ?c))" and d: "d = fsub q (Fin 1)"
      by (rule imageE)
    from set_map2_elem [OF q] obtain c p where c: "c \<in> set ?c" and p: "p \<in> set (cummax ?c)"
      and qq: "q = fdiv c p"
      by blast
    have "c = Fin 1" "p = Fin 1" using c p c1 p1 by blast+
    then have "q = Fin 1" by (simp add: qq)
    then show "d = Fin 0" by (simp add: d fsub_def)
  qed
  ultimately show ?thesis by (rule series_min_const)
qed

lemma max_drawdown_all_zero:
  assumes "dropna (to_numeric series) \<noteq> []" and "\<forall>x \<in> set (dropna (to_numeric series)). x = Fin 0"
  shows "max_drawdown to_numeric series = (Fin 0, [])"
  using assms(1) unfolding max_drawdown_def Let_def drawdown_all_zero [OF assms] by simp

lemma dropna_idem: "dropna (dropna xs) = dropna xs"
  by (simp add: dropna_def)

lemma max_drawdown_dropna:
  "max_drawdown to_numeric series = max_drawdown (\<lambda>x. x) (dropna (to_numeric series))"
  unfolding max_drawdown_def dropna_idem ..

lemma max_drawdown_warns:
  "(fst (max_drawdown to_numeric series) = NaN) = (snd (max_drawdown to_numeric series) \<noteq> [])"
  unfolding max_drawdown_def Let_def by (auto simp: isnan_iff split: if_splits)

text \<open>
  Claim C4. \<open>max_drawdown\<close> works on the entries that are numbers (the others are
  dropped). When none is left the result is NaN with the warning of the empty series.
  Otherwise the result is the least value of cumulative wealth index over running maximum,
  minus 1, over the entries where that is defined, and NaN when that is not a finite
  number. The result is NaN or a number that is at most 0, and it is NaN exactly when a
  warning is recorded. On a series whose numbers are all 0 the result is 0.
\<close>

theorem max_drawdown_worst_decline:
  "max_drawdown to_numeric series = max_drawdown (\<lambda>x. x) (dropna (to_numeric series)) \<and>
   (dropna (to_numeric series) = [] \<longrightarrow>
      max_drawdown to_numeric series =
        (NaN, [RuntimeWarning ''Max drawdown could not be computed (empty return series).''])) \<and>
   (dropna (to_numeric series) \<noteq> [] \<longrightarrow>
      fst (max_drawdown to_numeric series) = worst_drawdown (dropna (to_numeric series))) \<and>
   (fst (max_drawdown to_numeric series) = NaN \<or>
    (\<exists>r. r \<le> 0 \<and> fst (max_drawdown to_numeric series) = Fin r)) \<and>
   ((fst (max_drawdown to_numeric series) = NaN) = (snd (max_drawdown to_numeric series) \<noteq> [])) \<and>
   (dropna (to_numeric series) \<noteq> [] \<and> (\<forall>x \<in> set (dropna (to_numeric series)). x = Fin 0) \<longrightarrow>
      max_drawdown to_numeric series = (Fin 0, []))"
proof -
  have "max_drawdown to_numeric series =
        (NaN, [RuntimeWarning ''Max drawdown could not be computed (empty return series).''])"
    if "dropna (to_numeric series) = []"
    using that by (simp add: max_drawdown_def)
  then show ?thesis
    using max_drawdown_dropna [of to_numeric series] max_drawdown_refines [of to_numeric series]
      max_drawdown_nonpositive [of to_numeric series] max_drawdown_warns [of to_numeric series]
      max_drawdown_all_zero [of to_numeric series]
    by blast
qed

theorem max_drawdown_worst_decline_witness:
  "max_drawdown (\<lambda>x. x) [NaN] =
     (NaN, [RuntimeWarning ''Max drawdown could not be computed (empty return series).'']) \<and>
   max_drawdown (\<lambda>x. x) [Fin 0, NaN, Fin 0] = (Fin 0, []) \<and>
   fst (max_drawdown (\<lambda>x. x) [Fin 1, NaN, Fin (- 1 / 2)]) = worst_drawdown [Fin 1, Fin (- 1 / 2)] \<and>
   worst_drawdown [Fin 1, Fin (- 1 / 2)] = Fin (- 1 / 2)"
proof -
  have d1: "dropna [NaN] = []" by (simp add: dropna_def)
  have d2: "dropna [Fin 0, NaN, Fin 0] = [Fin 0, Fin 0]" by (simp add: dropna_def)
  have d3: "dropna [Fin 1, NaN, Fin (- 1 / 2)] = [Fin 1, Fin (- 1 / 2)]" by (simp add: dropna_def)
  have 1: "max_drawdown (\<lambda>x. x) [NaN] =
     (NaN, [RuntimeWarning ''Max drawdown could not be computed (empty return series).''])"
    using max_drawdown_worst_decline [of "\<lambda>x. x" "[NaN]"] d1 by blast
  have h2: "dropna [Fin 0, NaN, Fin 0] \<noteq> [] \<and> (\<forall>x \<in> set (dropna [Fin 0, NaN, Fin 0]). x = Fin 0)"
    by (simp add: d2)
  have 2: "max_drawdown (\<lambda>x. x) [Fin 0, NaN, Fin 0] = (Fin 0, [])"
    using max_drawdown_worst_decline [of "\<lambda>x. x" "[Fin 0, NaN, Fin 0]"] h2 by blast
  have 3: "fst (max_drawdown (\<lambda>x. x) [Fin 1, NaN, Fin (- 1 / 2)]) =
      worst_drawdown [Fin 1, Fin (- 1 / 2)]"
  proof -
    have "dropna [Fin 1, NaN, Fin (- 1 / 2)] \<noteq> []" by (simp add: dropna_def)
    then have "fst (max_drawdown (\<lambda>x. x) [Fin 1, NaN, Fin (- 1 / 2)]) =
        worst_drawdown (dropna [Fin 1, NaN, Fin (- 1 / 2)])"
      using max_drawdown_worst_decline [of "\<lambda>x. x" "[Fin 1, NaN, Fin (- 1 / 2)]"] by blast
    then show ?thesis by (simp only: d3)
  qed
  have u: "[0..<2] = [0, Suc 0]" by (simp add: upt_rec)
  have 4: "worst_drawdown [Fin 1, Fin (- 1 / 2)] = Fin (- 1 / 2)"
    by (simp add: worst_drawdown_def drawdown_at_def running_max_def wealth_index_def u
        series_min_def dropna_def fmaximum_def fminimum_def finite_or_nan_def fsub_def)
  show ?thesis using 1 2 3 4 by simp
qed

end
